theory Spec2Isabelle
  imports Complex_Main
begin

section \<open>Numbers and the library functions of the platform\<close>

text \<open>
  The program is TypeScript; every \<^verbatim>\<open>number\<close> is modelled as a \<^typ>\<open>real\<close>. This is the
  arithmetic the formulas of the program are written in; the rounding of IEEE doubles, the
  values NaN and \<open>\<plusminus>Infinity\<close> and the sign of zero are outside the model. Strings are
  \<^typ>\<open>string\<close>; the categorical inputs (cloud, precip, terrain, stability) are strings at run
  time and are kept as strings, so that the \<^verbatim>\<open>default\<close> branches of the source are branches
  of the model.
\<close>

text \<open>\<^verbatim>\<open>Math.round\<close>: the nearest integer, a tie going up.\<close>

definition Math_round :: "real \<Rightarrow> real" where
  "Math_round v = of_int \<lfloor>v + 1 / 2\<rfloor>"

text \<open>\<^verbatim>\<open>Math.trunc\<close> (used by the remainder below): the integer part, towards zero.\<close>

definition Math_trunc :: "real \<Rightarrow> real" where
  "Math_trunc v = (if 0 \<le> v then of_int \<lfloor>v\<rfloor> else of_int \<lceil>v\<rceil>)"

text \<open>
  The operator \<^verbatim>\<open>%\<close> of JavaScript on a non-zero divisor: the remainder of the division
  truncated towards zero, so the result has the sign of the dividend. (Every use in the
  program has the divisor 360.)
\<close>

definition js_rem :: "real \<Rightarrow> real \<Rightarrow> real" where
  "js_rem a n = a - n * Math_trunc (a / n)"

text \<open>
  \<^verbatim>\<open>Math.atan2(y, x)\<close>: the angle of the point \<open>(x, y)\<close>, in \<open>(-\<pi>, \<pi>]\<close>; \<open>atan2(0, 0)\<close> is
  \<open>0\<close> (the positive zeros of the double format).
\<close>

definition Math_atan2 :: "real \<Rightarrow> real \<Rightarrow> real" where
  "Math_atan2 yv xv =
     (if 0 < xv then arctan (yv / xv)
      else if xv < 0 \<and> 0 \<le> yv then arctan (yv / xv) + pi
      else if xv < 0 then arctan (yv / xv) - pi
      else if 0 < yv then pi / 2
      else if yv < 0 then - (pi / 2)
      else 0)"


section \<open>The cone module (screen geometry)\<close>

definition clamp :: "real \<Rightarrow> real \<Rightarrow> real \<Rightarrow> real" where
  "clamp n a b = max a (min b n)"

definition downwindDeg :: "real \<Rightarrow> real" where
  "downwindDeg fromDeg = js_rem (fromDeg + 180) 360"

definition degToRad :: "real \<Rightarrow> real" where
  "degToRad d = (d * pi) / 180"

record ScreenPoint =
  pt_x :: real
  pt_y :: real

definition rotatePoint :: "ScreenPoint \<Rightarrow> ScreenPoint \<Rightarrow> real \<Rightarrow> ScreenPoint" where
  "rotatePoint origin p deg =
     (let r = degToRad deg;
          s = sin r;
          c = cos r;
          dx = pt_x p - pt_x origin;
          dy = pt_y p - pt_y origin
      in \<lparr> pt_x = pt_x origin + dx * c - dy * s,
           pt_y = pt_y origin + dx * s + dy * c \<rparr>)"

record Cone =
  left :: ScreenPoint
  right :: ScreenPoint
  tip :: ScreenPoint
  cone_downwindDeg :: real

definition computeCone :: "ScreenPoint \<Rightarrow> real \<Rightarrow> real \<Rightarrow> real \<Rightarrow> Cone" where
  "computeCone src lengthPx halfAngleDeg windFromDeg =
     (let down = downwindDeg windFromDeg;
          tip0 = \<lparr> pt_x = pt_x src + lengthPx, pt_y = pt_y src \<rparr>;
          left0 = rotatePoint src tip0 (- halfAngleDeg);
          right0 = rotatePoint src tip0 halfAngleDeg
      in \<lparr> left = rotatePoint src left0 (- down),
           right = rotatePoint src right0 (- down),
           tip = rotatePoint src tip0 (- down),
           cone_downwindDeg = down \<rparr>)"


section \<open>The envelope module\<close>

record LatLon =
  lat :: real
  lon :: real

record EnvelopePolys =
  core :: "LatLon list"
  fringe :: "LatLon list"
  residual :: "LatLon list"

record StartPoint =
  label :: string
  point :: LatLon

definition metersPerDegreeLat :: real where
  "metersPerDegreeLat = 111320"

definition metersPerDegreeLon :: "real \<Rightarrow> real" where
  "metersPerDegreeLon latDeg = 111320 * cos ((latDeg * pi) / 180)"

text \<open>
  The flat-earth displacement. Where \<open>cos\<close> of the latitude is \<open>0\<close> (the poles) the source
  divides by zero; HOL's \<open>v / 0 = 0\<close> is not what the doubles give there. The statements below
  that compute a value of \<open>moveLL\<close> do so at latitude 0; the others only name the call.
\<close>

definition moveLL :: "LatLon \<Rightarrow> real \<Rightarrow> real \<Rightarrow> LatLon" where
  "moveLL start bearingDeg distanceMeters =
     (let br = (bearingDeg * pi) / 180;
          dNorth = cos br * distanceMeters;
          dEast = sin br * distanceMeters;
          dLat = dNorth / metersPerDegreeLat;
          dLon = dEast / metersPerDegreeLon (lat start)
      in \<lparr> lat = lat start + dLat, lon = lon start + dLon \<rparr>)"

definition downwind :: "real \<Rightarrow> real" where
  "downwind fromDeg = js_rem (fromDeg + 180) 360"

definition terrainLenMult :: "string \<Rightarrow> real" where
  "terrainLenMult t =
     (if t = ''open'' then 1.1
      else if t = ''forest'' then 0.95
      else if t = ''urban'' then 0.85
      else if t = ''swamp'' then 0.9
      else if t = ''beach'' then 1.0
      else 1.0)"

definition stabilityMult :: "string \<Rightarrow> real" where
  "stabilityMult s =
     (if s = ''stable'' then 0.9
      else if s = ''convective'' then 1.05
      else 1.0)"

definition mixMult :: "string \<Rightarrow> string \<Rightarrow> real" where
  "mixMult s terrain =
     (let m0 = 1.0;
          m1 = (if s = ''stable'' then m0 * 0.85 else m0);
          m2 = (if s = ''convective'' then m1 * 1.25 else m1);
          m3 = (if terrain = ''urban'' then m2 * 1.15 else m2)
      in m3)"

text \<open>The two \<^verbatim>\<open>if\<close> statements of the source run one after the other: the second overwrites.\<close>

definition tauMinutes :: "real \<Rightarrow> real \<Rightarrow> string \<Rightarrow> real \<Rightarrow> real" where
  "tauMinutes tempF rh cloud windMph =
     (let tau0 = 180;
          tau1 = (if tempF > 85 \<or> rh < 35 \<or> windMph > 15 \<or> cloud = ''clear'' then 120 else tau0);
          tau2 = (if tempF < 65 \<and> rh > 55 \<and> (cloud = ''overcast'' \<or> cloud = ''night'') then 240
                  else tau1)
      in tau2)"

definition confidenceScore ::
  "real \<Rightarrow> real \<Rightarrow> real \<Rightarrow> string \<Rightarrow> string \<Rightarrow> bool \<Rightarrow> real \<Rightarrow> real" where
  "confidenceScore tMin tempF rh cloud precip recentRain windMph =
     (let tau = tauMinutes tempF rh cloud windMph;
          cTime = 100 * exp (- tMin / tau);
          hum = (if rh < 30 then 0.8 else if rh > 60 then 1.1 else 1.0);
          temp = (if tempF > 85 then 0.85 else if tempF < 60 then 1.05 else 1.0);
          sun = (if cloud = ''clear'' then 0.85
                 else if cloud = ''partly'' then 0.95
                 else if cloud = ''overcast'' \<or> cloud = ''night'' then 1.05
                 else 1.0);
          rain0 = (if precip = ''heavy'' then 0.75
                   else if precip = ''moderate'' then 0.9
                   else if precip = ''light'' then 0.9
                   else 1.0);
          rain = (if recentRain then rain0 * 0.95 else rain0);
          wind = (if windMph \<le> 3 then 0.85
                  else if windMph \<le> 12 then 1.0
                  else if windMph \<le> 18 then 0.9
                  else 0.8);
          c = cTime * hum * temp * sun * rain * wind
      in clamp (Math_round c) 5 100)"

definition confidenceBand :: "real \<Rightarrow> string" where
  "confidenceBand c =
     (if c \<ge> 70 then ''High'' else if c \<ge> 40 then ''Moderate'' else ''Low'')"

definition resetRecommendation :: "real \<Rightarrow> real" where
  "resetRecommendation c = (if c < 40 then 30 else if c < 70 then 45 else 60)"


text \<open>
  The loop \<^verbatim>\<open>for (let i = 0; i <= points; i++)\<close> of \<open>coneFan\<close>, the polygon under
  construction passed along. The bound is inclusive.
\<close>

function coneFan_loop ::
  "nat \<Rightarrow> nat \<Rightarrow> LatLon \<Rightarrow> real \<Rightarrow> real \<Rightarrow> real \<Rightarrow> LatLon list \<Rightarrow> LatLon list" where
  "coneFan_loop i points lkp start endDeg lengthM poly =
     (if i \<le> points
      then (let t = real i / real points;
                b = start + (endDeg - start) * t
            in coneFan_loop (i + 1) points lkp start endDeg lengthM
                 (poly @ [moveLL lkp b lengthM]))
      else poly)"
  by pat_completeness auto
termination
  by (relation "measure (\<lambda>(i, points, rest). Suc points - i)") auto

text \<open>
  \<open>points\<close> is the last parameter of the source, with the default 28; the callers of this
  program never pass it, so every call below passes 28. (With \<open>points = 0\<close> the source would
  divide 0 by 0; no call does.)
\<close>

definition coneFan :: "LatLon \<Rightarrow> real \<Rightarrow> real \<Rightarrow> real \<Rightarrow> nat \<Rightarrow> LatLon list" where
  "coneFan lkp axisDeg lengthM widthEndM points =
     (let halfAngle = Math_atan2 widthEndM lengthM;
          start = axisDeg - (halfAngle * 180) / pi;
          endDeg = axisDeg + (halfAngle * 180) / pi;
          poly0 = [];
          poly1 = poly0 @ [lkp];
          poly2 = coneFan_loop 0 points lkp start endDeg lengthM poly1;
          poly3 = poly2 @ [lkp]
      in poly3)"

text \<open>
  The request. The two timestamps of the source are ISO strings that are only ever read
  through \<^verbatim>\<open>Date.parse\<close>; the fields \<open>lkp_time_ms\<close> and \<open>now_time_ms\<close> are the values of
  \<^verbatim>\<open>Date.parse(input.lkp_time_iso)\<close> and \<^verbatim>\<open>Date.parse(input.now_time_iso)\<close>, milliseconds
  since the epoch (a timestamp that does not parse gives NaN, which is outside the model).
\<close>

record EnvelopeInput =
  lkp_lat :: real
  lkp_lon :: real
  lkp_time_ms :: real
  now_time_ms :: real
  wind_from_deg :: real
  wind_speed_mph :: real
  temperature_f :: real
  rel_humidity_pct :: real
  cloud :: string
  precip :: string
  recent_rain :: bool
  terrain :: string
  stability :: string

record EnvelopeResult =
  minutes_since_lkp :: real
  polygons :: EnvelopePolys
  confidence_score :: real
  confidence_band :: string
  reset_recommendation_minutes :: real
  recommended_start_points :: "StartPoint list"
  deployment_notes :: "string list"

text \<open>The string literals of the notes; the dash of the source is U+2014, three bytes in UTF-8.\<close>

definition em_dash :: string where
  "em_dash = [CHR 0xE2, CHR 0x80, CHR 0x94]"

definition note_low_wind :: string where
  "note_low_wind =
     ''Low wind: scent pooling/eddy likely'' @ em_dash @ ''work LKP and leeward obstacles.''"

definition note_high_wind :: string where
  "note_high_wind =
     ''Higher wind: dilution/variability likely'' @ em_dash
       @ ''use multiple start points and reassess often.''"

definition note_heavy_precip :: string where
  "note_heavy_precip =
     ''Heavy precip can disrupt airborne scent'' @ em_dash
       @ ''prioritize high-probability areas first.''"

definition note_low_confidence :: string where
  "note_low_confidence =
     ''Low confidence: use envelope as planning aid; prioritize tracks/POAs/intel.''"

definition note_moderate_confidence :: string where
  "note_moderate_confidence =
     ''Moderate confidence: core first, fringe support, residual if resources permit.''"

definition note_high_confidence :: string where
  "note_high_confidence =
     ''High confidence: deploy downwind along core axis, bracket fringe.''"

text \<open>
  The locals \<open>tMin\<close>, \<open>W\<close>, \<open>L_m\<close> and \<open>Width_end_m\<close> of \<open>computeScentEnvelope\<close>, each as a
  function of the request (the length model and the width model of the source).
\<close>

definition envelope_tMin :: "EnvelopeInput \<Rightarrow> real" where
  "envelope_tMin input =
     max 0 (Math_round ((now_time_ms input - lkp_time_ms input) / 60000))"

definition envelope_W :: "EnvelopeInput \<Rightarrow> real" where
  "envelope_W input = max 0 (wind_speed_mph input)"

definition envelope_L_m :: "EnvelopeInput \<Rightarrow> real" where
  "envelope_L_m input =
     (let tMin = envelope_tMin input;
          W = envelope_W input;
          W_eff = min W 18;
          L_base_ft = 30 + 6.0 * tMin;
          L_wind_ft = 120 * W_eff * ln (1 + tMin / 30);
          L_ft = (L_base_ft + L_wind_ft) * terrainLenMult (terrain input)
                   * stabilityMult (stability input)
      in L_ft * 0.3048)"

definition envelope_Width_end_m :: "EnvelopeInput \<Rightarrow> real" where
  "envelope_Width_end_m input =
     (let tMin = envelope_tMin input;
          mix = mixMult (stability input) (terrain input);
          Width_end_ft = (20 + 3.5 * tMin + 40 * sqrt (max 1 tMin)) * mix
      in Width_end_ft * 0.3048)"

definition computeScentEnvelope :: "EnvelopeInput \<Rightarrow> EnvelopeResult" where
  "computeScentEnvelope input =
     (let lkp = \<lparr> lat = lkp_lat input, lon = lkp_lon input \<rparr>;
          tMin = envelope_tMin input;
          W = envelope_W input;
          L_m = envelope_L_m input;
          Width_end_m = envelope_Width_end_m input;
          L_core = 0.55 * L_m;
          W_core = 0.45 * Width_end_m;
          L_fringe = 0.85 * L_m;
          W_fringe = 0.8 * Width_end_m;
          L_res = 1.0 * L_m;
          W_res = 1.15 * Width_end_m;
          axis = downwind (wind_from_deg input);
          polys = \<lparr> core = coneFan lkp axis L_core W_core 28,
                    fringe = coneFan lkp axis L_fringe W_fringe 28,
                    residual = coneFan lkp axis L_res W_res 28 \<rparr>;
          c = confidenceScore tMin (temperature_f input) (rel_humidity_pct input)
                (cloud input) (precip input) (recent_rain input) W;
          notes0 = [];
          notes1 = (if W \<le> 3 then notes0 @ [note_low_wind] else notes0);
          notes2 = (if W \<ge> 13 then notes1 @ [note_high_wind] else notes1);
          notes3 = (if precip input = ''heavy'' then notes2 @ [note_heavy_precip] else notes2);
          notes = (if c < 40 then notes3 @ [note_low_confidence]
                   else if c < 70 then notes3 @ [note_moderate_confidence]
                   else notes3 @ [note_high_confidence]);
          startPoints =
            [\<lparr> label = ''LKP (Immediate)'', point = lkp \<rparr>,
             \<lparr> label = ''Core Midline (~35%)'', point = moveLL lkp axis (0.35 * L_m) \<rparr>,
             \<lparr> label = ''Core Far (~55%)'', point = moveLL lkp axis (0.55 * L_m) \<rparr>]
      in \<lparr> minutes_since_lkp = tMin,
           polygons = polys,
           confidence_score = c,
           confidence_band = confidenceBand c,
           reset_recommendation_minutes = resetRecommendation c,
           recommended_start_points = startPoints,
           deployment_notes = notes \<rparr>)"


section \<open>Notions the statements are written in\<close>

text \<open>The Euclidean distance between two screen points.\<close>

definition euclid_dist :: "ScreenPoint \<Rightarrow> ScreenPoint \<Rightarrow> real" where
  "euclid_dist a b = sqrt ((pt_x b - pt_x a)\<^sup>2 + (pt_y b - pt_y a)\<^sup>2)"

text \<open>The mathematical residue of \<open>a\<close> modulo \<open>n\<close>, in \<open>[0, n)\<close> for a positive \<open>n\<close>.\<close>

definition residue :: "real \<Rightarrow> real \<Rightarrow> real" where
  "residue a n = a - n * of_int \<lfloor>a / n\<rfloor>"

text \<open>The bearing \<open>b\<close> of the sample that the loop of \<open>coneFan\<close> pushes at index \<open>i\<close>.\<close>

definition coneFan_bearing :: "real \<Rightarrow> real \<Rightarrow> real \<Rightarrow> nat \<Rightarrow> nat \<Rightarrow> real" where
  "coneFan_bearing axisDeg lengthM widthEndM points i =
     (let halfAngle = Math_atan2 widthEndM lengthM;
          start = axisDeg - (halfAngle * 180) / pi;
          endDeg = axisDeg + (halfAngle * 180) / pi;
          t = real i / real points
      in start + (endDeg - start) * t)"

text \<open>
  A request that evaluates in closed form: the LKP at latitude 0 and longitude 0, no time
  elapsed, a calm wind from the south (so the downwind axis is north), mild weather.
\<close>

definition request_origin :: EnvelopeInput where
  "request_origin =
     \<lparr> lkp_lat = 0, lkp_lon = 0, lkp_time_ms = 0, now_time_ms = 0,
       wind_from_deg = 180, wind_speed_mph = 0,
       temperature_f = 75, rel_humidity_pct = 50,
       cloud = ''partly'', precip = ''none'', recent_rain = False,
       terrain = ''mixed'', stability = ''neutral'' \<rparr>"

text \<open>The same request evaluated one hour after the LKP time.\<close>

definition request_hour :: EnvelopeInput where
  "request_hour = request_origin \<lparr> now_time_ms := 3600000 \<rparr>"

text \<open>
  Two more requests with no time elapsed: hot, dry and clear with a 10 mph wind; and the same
  in heavy rain after recent rain, with a 20 mph wind.
\<close>

definition request_dry :: EnvelopeInput where
  "request_dry =
     request_origin \<lparr> wind_speed_mph := 10, temperature_f := 90, rel_humidity_pct := 20,
       cloud := ''clear'' \<rparr>"

definition request_storm :: EnvelopeInput where
  "request_storm =
     request_dry \<lparr> wind_speed_mph := 20, precip := ''heavy'', recent_rain := True \<rparr>"


section \<open>Auxiliary facts\<close>

declare coneFan_loop.simps [simp del]

lemma coneFan_loop_eq:
  "coneFan_loop i n lkp s e len poly =
     poly @ map (\<lambda>k. moveLL lkp (s + (e - s) * (real k / real n)) len) [i..<Suc n]"
proof (induction i n lkp s e len poly rule: coneFan_loop.induct)
  case (1 i points lkp start endDeg lengthM poly)
  show ?case
  proof (cases "i \<le> points")
    case True
    then have "[i..<Suc points] = i # [Suc i..<Suc points]"
      by (simp add: upt_conv_Cons)
    with 1 True show ?thesis
      by (subst coneFan_loop.simps) (simp add: Let_def)
  next
    case False
    then show ?thesis
      by (subst coneFan_loop.simps) simp
  qed
qed

lemma coneFan_eq:
  "coneFan lkp axisDeg lengthM widthEndM points =
     lkp # map (\<lambda>k. moveLL lkp (coneFan_bearing axisDeg lengthM widthEndM points k) lengthM)
             [0..<Suc points] @ [lkp]"
  by (simp add: coneFan_def coneFan_bearing_def Let_def coneFan_loop_eq)

lemma Math_atan2_nonneg:
  assumes "0 \<le> yv"
  shows "0 \<le> Math_atan2 yv xv"
proof -
  have low: "- (pi / 2) < arctan (yv / xv)" by (rule arctan_lbound)
  consider "0 < xv" | "xv < 0" | "xv = 0" by linarith
  then show ?thesis
  proof cases
    case 1
    then have "0 \<le> yv / xv" using assms by simp
    then show ?thesis using 1 by (simp add: Math_atan2_def)
  next
    case 2
    have "0 \<le> arctan (yv / xv) + pi" using low pi_gt_zero by linarith
    then show ?thesis using 2 assms by (simp add: Math_atan2_def)
  next
    case 3
    then show ?thesis using assms by (simp add: Math_atan2_def)
  qed
qed

lemma js_rem_360_nonneg:
  assumes "0 \<le> a"
  shows "js_rem a 360 = residue a 360" and "0 \<le> js_rem a 360" and "js_rem a 360 < 360"
proof -
  have nn: "0 \<le> a / 360" using assms by simp
  have eq: "js_rem a 360 = a - 360 * of_int \<lfloor>a / 360\<rfloor>"
    using nn by (simp add: js_rem_def Math_trunc_def)
  then show "js_rem a 360 = residue a 360" by (simp add: residue_def)
  have lo: "of_int \<lfloor>a / 360\<rfloor> \<le> a / 360" by (rule of_int_floor_le)
  have hi: "a / 360 < of_int \<lfloor>a / 360\<rfloor> + 1" by linarith
  show "0 \<le> js_rem a 360" using lo by (simp add: eq field_simps)
  show "js_rem a 360 < 360" using hi by (simp add: eq field_simps)
qed

lemma js_rem_minus_20: "js_rem (- 20) 360 = - 20"
proof -
  have "\<lceil>- (1 / 18) :: real\<rceil> = 0" by (rule ceiling_unique) simp_all
  then show ?thesis by (simp add: js_rem_def Math_trunc_def)
qed

lemma residue_minus_20: "residue (- 20) 360 = 340"
proof -
  have "\<lfloor>- (1 / 18) :: real\<rfloor> = - 1" by (rule floor_unique) simp_all
  then show ?thesis by (simp add: residue_def)
qed

lemma js_rem_450: "js_rem 450 360 = 90"
proof -
  have "\<lfloor>5 / 4 :: real\<rfloor> = 1" by (rule floor_unique) simp_all
  then show ?thesis by (simp add: js_rem_def Math_trunc_def)
qed

lemma rotatePoint_squares:
  "(pt_x (rotatePoint origin p deg) - pt_x origin)\<^sup>2
     + (pt_y (rotatePoint origin p deg) - pt_y origin)\<^sup>2
   = (pt_x p - pt_x origin)\<^sup>2 + (pt_y p - pt_y origin)\<^sup>2"
proof -
  define c where "c = cos (degToRad deg)"
  define s where "s = sin (degToRad deg)"
  define dx where "dx = pt_x p - pt_x origin"
  define dy where "dy = pt_y p - pt_y origin"
  have cs: "s\<^sup>2 + c\<^sup>2 = 1" unfolding c_def s_def by simp
  have "(dx * c - dy * s)\<^sup>2 + (dx * s + dy * c)\<^sup>2 = (dx\<^sup>2 + dy\<^sup>2) * (s\<^sup>2 + c\<^sup>2)"
    by (simp add: power2_eq_square algebra_simps)
  then have "(dx * c - dy * s)\<^sup>2 + (dx * s + dy * c)\<^sup>2 = dx\<^sup>2 + dy\<^sup>2"
    by (simp add: cs)
  then show ?thesis
    by (simp add: rotatePoint_def Let_def c_def s_def dx_def dy_def)
qed


lemma Math_round_Ints: "Math_round v \<in> \<int>"
  by (simp add: Math_round_def)

lemma clamp_bounds: "a \<le> b \<Longrightarrow> a \<le> clamp n a b \<and> clamp n a b \<le> b"
  by (simp add: clamp_def)

lemma clamp_Ints: "n \<in> \<int> \<Longrightarrow> a \<in> \<int> \<Longrightarrow> b \<in> \<int> \<Longrightarrow> clamp n a b \<in> \<int>"
  by (simp add: clamp_def max_def min_def)

lemma confidenceScore_range:
  "confidenceScore t tF h sky pr rr w \<in> \<int>
   \<and> 5 \<le> confidenceScore t tF h sky pr rr w \<and> confidenceScore t tF h sky pr rr w \<le> 100"
  unfolding confidenceScore_def Let_def
  using clamp_bounds [of 5 100] by (simp add: clamp_Ints Math_round_Ints)

lemma tMin_nonneg: "0 \<le> envelope_tMin i"
  by (simp add: envelope_tMin_def)

lemma terrainLenMult_pos: "0 < terrainLenMult t"
  by (simp add: terrainLenMult_def)

lemma stabilityMult_pos: "0 < stabilityMult t"
  by (simp add: stabilityMult_def)

lemma mixMult_pos: "0 < mixMult s t"
  by (simp add: mixMult_def Let_def)

lemma length_ft_mono:
  fixes t1 t2 w :: real
  assumes "0 \<le> t1" "t1 \<le> t2" "0 \<le> w"
  shows "30 + 6.0 * t1 + 120 * w * ln (1 + t1 / 30) \<le> 30 + 6.0 * t2 + 120 * w * ln (1 + t2 / 30)"
proof -
  have "ln (1 + t1 / 30) \<le> ln (1 + t2 / 30)"
    using assms by (subst ln_le_cancel_iff) auto
  then have "120 * w * ln (1 + t1 / 30) \<le> 120 * w * ln (1 + t2 / 30)"
    using assms by (intro mult_left_mono) auto
  then show ?thesis using assms by linarith
qed

lemma length_ft_pos:
  fixes t1 w :: real
  assumes "0 \<le> t1" "0 \<le> w"
  shows "0 < 30 + 6.0 * t1 + 120 * w * ln (1 + t1 / 30)"
proof -
  have "0 \<le> ln (1 + t1 / 30)" using assms by simp
  then have "0 \<le> 120 * w * ln (1 + t1 / 30)" using assms by simp
  then show ?thesis using assms by linarith
qed

lemma width_ft_mono:
  fixes t1 t2 :: real
  assumes "t1 \<le> t2"
  shows "20 + 3.5 * t1 + 40 * sqrt (max 1 t1) \<le> 20 + 3.5 * t2 + 40 * sqrt (max 1 t2)"
proof -
  have "sqrt (max 1 t1) \<le> sqrt (max 1 t2)" using assms by simp
  then show ?thesis using assms by linarith
qed

lemma width_ft_pos:
  fixes t1 :: real
  assumes "0 \<le> t1"
  shows "0 < 20 + 3.5 * t1 + 40 * sqrt (max 1 t1)"
proof -
  have "0 \<le> sqrt (max 1 t1)" by simp
  then show ?thesis using assms by linarith
qed

lemma L_m_pos: "0 < envelope_L_m i"
  unfolding envelope_L_m_def Let_def
  using length_ft_pos [of "envelope_tMin i" "min (envelope_W i) 18"]
    terrainLenMult_pos [of "terrain i"] stabilityMult_pos [of "stability i"]
  by (simp add: tMin_nonneg envelope_W_def)

lemma Width_pos: "0 < envelope_Width_end_m i"
  unfolding envelope_Width_end_m_def Let_def
  using width_ft_pos [of "envelope_tMin i"] mixMult_pos [of "stability i" "terrain i"]
  by (simp add: tMin_nonneg)

lemma result_polygons:
  "polygons (computeScentEnvelope input) =
     \<lparr> core = coneFan \<lparr> lat = lkp_lat input, lon = lkp_lon input \<rparr> (downwind (wind_from_deg input))
               (0.55 * envelope_L_m input) (0.45 * envelope_Width_end_m input) 28,
       fringe = coneFan \<lparr> lat = lkp_lat input, lon = lkp_lon input \<rparr> (downwind (wind_from_deg input))
               (0.85 * envelope_L_m input) (0.8 * envelope_Width_end_m input) 28,
       residual = coneFan \<lparr> lat = lkp_lat input, lon = lkp_lon input \<rparr> (downwind (wind_from_deg input))
               (1.0 * envelope_L_m input) (1.15 * envelope_Width_end_m input) 28 \<rparr>"
  by (simp add: computeScentEnvelope_def Let_def)

lemma result_score:
  "confidence_score (computeScentEnvelope input) =
     confidenceScore (envelope_tMin input) (temperature_f input) (rel_humidity_pct input)
       (cloud input) (precip input) (recent_rain input) (envelope_W input)"
  by (simp add: computeScentEnvelope_def Let_def)

lemma result_band:
  "confidence_band (computeScentEnvelope input) =
     confidenceBand (confidence_score (computeScentEnvelope input))"
  by (simp add: computeScentEnvelope_def Let_def)

lemma result_reset:
  "reset_recommendation_minutes (computeScentEnvelope input) =
     resetRecommendation (confidence_score (computeScentEnvelope input))"
  by (simp add: computeScentEnvelope_def Let_def)

lemma result_minutes: "minutes_since_lkp (computeScentEnvelope input) = envelope_tMin input"
  by (simp add: computeScentEnvelope_def Let_def)

lemma result_start_points:
  "recommended_start_points (computeScentEnvelope input) =
     [\<lparr> label = ''LKP (Immediate)'', point = \<lparr> lat = lkp_lat input, lon = lkp_lon input \<rparr> \<rparr>,
      \<lparr> label = ''Core Midline (~35%)'',
        point = moveLL \<lparr> lat = lkp_lat input, lon = lkp_lon input \<rparr>
                  (downwind (wind_from_deg input)) (0.35 * envelope_L_m input) \<rparr>,
      \<lparr> label = ''Core Far (~55%)'',
        point = moveLL \<lparr> lat = lkp_lat input, lon = lkp_lon input \<rparr>
                  (downwind (wind_from_deg input)) (0.55 * envelope_L_m input) \<rparr>]"
  by (simp add: computeScentEnvelope_def Let_def)

lemma result_notes:
  "deployment_notes (computeScentEnvelope input) =
     (if envelope_W input \<le> 3 then [note_low_wind] else [])
     @ (if 13 \<le> envelope_W input then [note_high_wind] else [])
     @ (if precip input = ''heavy'' then [note_heavy_precip] else [])
     @ [if confidence_score (computeScentEnvelope input) < 40 then note_low_confidence
        else if confidence_score (computeScentEnvelope input) < 70 then note_moderate_confidence
        else note_high_confidence]"
  by (simp add: computeScentEnvelope_def Let_def)

lemma notes_distinct:
  "distinct [note_low_wind, note_high_wind, note_heavy_precip,
             note_low_confidence, note_moderate_confidence, note_high_confidence]"
  by (simp add: note_low_wind_def note_high_wind_def note_heavy_precip_def
      note_low_confidence_def note_moderate_confidence_def note_high_confidence_def)

lemma origin_fields:
  "lkp_lat request_origin = 0" "lkp_lon request_origin = 0"
  "lkp_time_ms request_origin = 0" "now_time_ms request_origin = 0"
  "wind_from_deg request_origin = 180" "wind_speed_mph request_origin = 0"
  "temperature_f request_origin = 75" "rel_humidity_pct request_origin = 50"
  "cloud request_origin = ''partly''" "precip request_origin = ''none''"
  "recent_rain request_origin = False"
  "terrain request_origin = ''mixed''" "stability request_origin = ''neutral''"
  by (simp_all add: request_origin_def)

lemma Math_round_0: "Math_round 0 = 0"
  by (simp add: Math_round_def)

lemma origin_tMin: "envelope_tMin request_origin = 0"
  by (simp add: envelope_tMin_def origin_fields Math_round_0)

lemma origin_W: "envelope_W request_origin = 0"
  by (simp add: envelope_W_def origin_fields)

lemma origin_L_m: "envelope_L_m request_origin = 9.144"
  by (simp add: envelope_L_m_def Let_def origin_tMin origin_W terrainLenMult_def stabilityMult_def
      origin_fields)

lemma Math_round_80_75: "Math_round (323 / 4) = 81"
proof -
  have "\<lfloor>(323 / 4 :: real) + 1 / 2\<rfloor> = 81" by (rule floor_unique) simp_all
  then show ?thesis by (simp only: Math_round_def of_int_numeral)
qed

lemma origin_score_formula: "confidenceScore 0 75 50 ''partly'' ''none'' False 0 = 81"
proof -
  have tau: "tauMinutes 75 50 ''partly'' 0 = 180" by (simp add: tauMinutes_def)
  have "confidenceScore 0 75 50 ''partly'' ''none'' False 0 = clamp (Math_round (323 / 4)) 5 100"
    by (simp add: confidenceScore_def Let_def tau)
  then show ?thesis by (simp add: Math_round_80_75 clamp_def)
qed

lemma origin_score: "confidence_score (computeScentEnvelope request_origin) = 81"
  by (simp add: result_score origin_tMin origin_W origin_fields origin_score_formula)

lemma js_rem_360: "js_rem 360 360 = 0"
  by (simp add: js_rem_def Math_trunc_def)

lemma moveLL_north: "moveLL \<lparr> lat = 0, lon = 0 \<rparr> 0 d = \<lparr> lat = d / 111320, lon = 0 \<rparr>"
  by (simp add: moveLL_def Let_def metersPerDegreeLat_def metersPerDegreeLon_def)

lemma downwind_180: "downwind 180 = 0"
  by (simp add: downwind_def js_rem_360)

lemma Math_round_60: "Math_round 60 = 60"
proof -
  have "\<lfloor>(60 :: real) + 1 / 2\<rfloor> = 60" by (rule floor_unique) simp_all
  then show ?thesis by (simp only: Math_round_def of_int_numeral)
qed

lemma hour_tMin: "envelope_tMin request_hour = 60"
  by (simp add: envelope_tMin_def request_hour_def origin_fields Math_round_60)

lemma tMin_attained:
  "envelope_tMin (input \<lparr> now_time_ms := lkp_time_ms input + 60000 * real n \<rparr>) = real n"
proof -
  have "\<lfloor>real n + 1 / 2\<rfloor> = int n" by (rule floor_unique) simp_all
  then have "Math_round (real n) = real n" by (simp add: Math_round_def)
  then show ?thesis by (simp add: envelope_tMin_def)
qed

lemma dry_fields:
  "lkp_time_ms request_dry = 0" "now_time_ms request_dry = 0"
  "wind_speed_mph request_dry = 10"
  "temperature_f request_dry = 90" "rel_humidity_pct request_dry = 20"
  "cloud request_dry = ''clear''" "precip request_dry = ''none''"
  "recent_rain request_dry = False"
  by (simp_all add: request_dry_def request_origin_def)

lemma storm_fields:
  "lkp_time_ms request_storm = 0" "now_time_ms request_storm = 0"
  "wind_speed_mph request_storm = 20"
  "temperature_f request_storm = 90" "rel_humidity_pct request_storm = 20"
  "cloud request_storm = ''clear''" "precip request_storm = ''heavy''"
  "recent_rain request_storm = True"
  by (simp_all add: request_storm_def request_dry_def request_origin_def)

lemma Math_round_57_8: "Math_round (289 / 5) = 58"
proof -
  have "\<lfloor>(289 / 5 :: real) + 1 / 2\<rfloor> = 58" by (rule floor_unique) simp_all
  then show ?thesis by (simp only: Math_round_def of_int_numeral)
qed

lemma Math_round_32_946: "Math_round (16473 / 500) = 33"
proof -
  have "\<lfloor>(16473 / 500 :: real) + 1 / 2\<rfloor> = 33" by (rule floor_unique) simp_all
  then show ?thesis by (simp only: Math_round_def of_int_numeral)
qed

lemma dry_score_formula: "confidenceScore 0 90 20 ''clear'' ''none'' False 10 = 58"
proof -
  have tau: "tauMinutes 90 20 ''clear'' 10 = 120" by (simp add: tauMinutes_def)
  have "confidenceScore 0 90 20 ''clear'' ''none'' False 10 = clamp (Math_round (289 / 5)) 5 100"
    by (simp add: confidenceScore_def Let_def tau)
  then show ?thesis by (simp add: Math_round_57_8 clamp_def)
qed

lemma storm_score_formula: "confidenceScore 0 90 20 ''clear'' ''heavy'' True 20 = 33"
proof -
  have tau: "tauMinutes 90 20 ''clear'' 20 = 120" by (simp add: tauMinutes_def)
  have "confidenceScore 0 90 20 ''clear'' ''heavy'' True 20
          = clamp (Math_round (16473 / 500)) 5 100"
    by (simp add: confidenceScore_def Let_def tau)
  then show ?thesis by (simp add: Math_round_32_946 clamp_def)
qed

lemma dry_score: "confidence_score (computeScentEnvelope request_dry) = 58"
  by (simp add: result_score envelope_tMin_def envelope_W_def dry_fields Math_round_0
      dry_score_formula)

lemma storm_score: "confidence_score (computeScentEnvelope request_storm) = 33"
  by (simp add: result_score envelope_tMin_def envelope_W_def storm_fields Math_round_0
      storm_score_formula)

lemma origin_Width_end_m: "envelope_Width_end_m request_origin = 18.288"
  by (simp add: envelope_Width_end_m_def Let_def origin_tMin mixMult_def origin_fields)


section \<open>C1: the selection of the decay constant\<close>

text \<open>
  C1, as the source has it. The rule for cool, humid, overcast or night conditions is tested
  last and overwrites: \<open>tauMinutes\<close> is 240 whenever that rule holds, otherwise 120 when the
  warm, dry, windy or clear rule holds, otherwise 180.
\<close>

theorem tauMinutes_last_rule_wins:
  "tauMinutes tempF rh sky windMph =
     (if tempF < 65 \<and> rh > 55 \<and> (sky = ''overcast'' \<or> sky = ''night'') then 240
      else if tempF > 85 \<or> rh < 35 \<or> windMph > 15 \<or> sky = ''clear'' then 120
      else 180)"
  by (simp add: tauMinutes_def)

theorem tauMinutes_last_rule_wins_witness:
  "tauMinutes 75 50 ''partly'' 10 = 180 \<and> tauMinutes 90 50 ''partly'' 10 = 120
   \<and> tauMinutes 60 60 ''night'' 10 = 240"
  using tauMinutes_last_rule_wins [of 75 50 "''partly''" 10]
    tauMinutes_last_rule_wins [of 90 50 "''partly''" 10]
    tauMinutes_last_rule_wins [of 60 60 "''night''" 10]
  by simp

text \<open>
  C1 as first-match-wins fails: wind above 15 mph with 60 degrees, 60 percent humidity and an
  overcast sky meets both rules, and the result is 240, not 120.
\<close>

theorem tauMinutes_first_match_counterexample:
  "(20::real) > 15 \<and> (60::real) < 65 \<and> (60::real) > 55
   \<and> tauMinutes 60 60 ''overcast'' 20 = 240 \<and> tauMinutes 60 60 ''overcast'' 20 \<noteq> 120"
  by (simp add: tauMinutes_def)

section \<open>C2: the recommended start points\<close>

text \<open>
  C2, as the source has it. Every request gets exactly three start points, in this order:
  the LKP (label \<open>LKP (Immediate)\<close>), the point 35 percent of the total envelope length
  \<open>L_m\<close> down the axis (\<open>Core Midline (~35%)\<close>), and the point 55 percent of \<open>L_m\<close> down the
  axis (\<open>Core Far (~55%)\<close>). The second distance is positive and below the third, and the
  third is the length of the core zone, \<open>0.55 * L_m\<close>.
\<close>

theorem start_points:
  "recommended_start_points (computeScentEnvelope input) =
     [\<lparr> label = ''LKP (Immediate)'', point = \<lparr> lat = lkp_lat input, lon = lkp_lon input \<rparr> \<rparr>,
      \<lparr> label = ''Core Midline (~35%)'',
        point = moveLL \<lparr> lat = lkp_lat input, lon = lkp_lon input \<rparr>
                  (downwind (wind_from_deg input)) (0.35 * envelope_L_m input) \<rparr>,
      \<lparr> label = ''Core Far (~55%)'',
        point = moveLL \<lparr> lat = lkp_lat input, lon = lkp_lon input \<rparr>
                  (downwind (wind_from_deg input)) (0.55 * envelope_L_m input) \<rparr>]
   \<and> length (recommended_start_points (computeScentEnvelope input)) = 3
   \<and> core (polygons (computeScentEnvelope input)) =
       coneFan \<lparr> lat = lkp_lat input, lon = lkp_lon input \<rparr> (downwind (wind_from_deg input))
         (0.55 * envelope_L_m input) (0.45 * envelope_Width_end_m input) 28
   \<and> 0 < 0.35 * envelope_L_m input
   \<and> 0.35 * envelope_L_m input < 0.55 * envelope_L_m input"
  using L_m_pos [of input]
  by (simp add: result_start_points result_polygons)

theorem start_points_witness:
  "map label (recommended_start_points (computeScentEnvelope request_origin)) =
     [''LKP (Immediate)'', ''Core Midline (~35%)'', ''Core Far (~55%)'']
   \<and> map point (recommended_start_points (computeScentEnvelope request_origin)) =
     [\<lparr> lat = 0, lon = 0 \<rparr>, \<lparr> lat = 3.2004 / 111320, lon = 0 \<rparr>,
      \<lparr> lat = 5.0292 / 111320, lon = 0 \<rparr>]"
  using start_points [of request_origin]
  by (simp add: origin_fields downwind_180 origin_L_m moveLL_north)

text \<open>
  C2 with the percentages taken of the core-zone length (0.55 times \<open>L_m\<close>) fails: at the
  request \<open>request_origin\<close> the second and third points are not the points 35 and 55 percent
  of the core-zone length down the axis.
\<close>

theorem start_points_core_fraction_counterexample:
  "point (recommended_start_points (computeScentEnvelope request_origin) ! 1)
     \<noteq> moveLL \<lparr> lat = lkp_lat request_origin, lon = lkp_lon request_origin \<rparr>
          (downwind (wind_from_deg request_origin)) (0.35 * (0.55 * envelope_L_m request_origin))
   \<and> point (recommended_start_points (computeScentEnvelope request_origin) ! 2)
     \<noteq> moveLL \<lparr> lat = lkp_lat request_origin, lon = lkp_lon request_origin \<rparr>
          (downwind (wind_from_deg request_origin)) (0.55 * (0.55 * envelope_L_m request_origin))"
  by (simp add: result_start_points origin_fields downwind_180 origin_L_m moveLL_north)

section \<open>C3: the fan polygon\<close>

text \<open>
  C3, as the source has it. With \<open>halfAngle = atan2(width, length)\<close> in radians, the fan
  built with the default 28 is the LKP, then 29 samples (the loop index runs from 0 to 28,
  both included), then the LKP again: 31 vertices. Sample \<open>k\<close> is \<open>moveLL\<close> of the LKP by
  \<open>length\<close> metres along the bearing \<open>b k\<close>; \<open>b 0\<close> is the axis minus the half angle in
  degrees, \<open>b 28\<close> is the axis plus it, consecutive bearings differ by one 28th of the
  span, and for a width that is not negative the bearings do not decrease with \<open>k\<close>.
\<close>

theorem coneFan_polygon:
  "coneFan lkp axisDeg lengthM widthEndM 28 =
     [lkp] @ map (\<lambda>k. moveLL lkp (coneFan_bearing axisDeg lengthM widthEndM 28 k) lengthM)
               [0..<29] @ [lkp]
   \<and> length (coneFan lkp axisDeg lengthM widthEndM 28) = 31
   \<and> coneFan_bearing axisDeg lengthM widthEndM 28 0
       = axisDeg - (Math_atan2 widthEndM lengthM * 180) / pi
   \<and> coneFan_bearing axisDeg lengthM widthEndM 28 28
       = axisDeg + (Math_atan2 widthEndM lengthM * 180) / pi
   \<and> (\<forall>k. coneFan_bearing axisDeg lengthM widthEndM 28 (Suc k)
            - coneFan_bearing axisDeg lengthM widthEndM 28 k
          = (2 * ((Math_atan2 widthEndM lengthM * 180) / pi)) / 28)
   \<and> (0 \<le> widthEndM \<longrightarrow>
        (\<forall>j k. j \<le> k \<longrightarrow> coneFan_bearing axisDeg lengthM widthEndM 28 j
                           \<le> coneFan_bearing axisDeg lengthM widthEndM 28 k))"
proof -
  let ?h = "(Math_atan2 widthEndM lengthM * 180) / pi"
  have b: "coneFan_bearing axisDeg lengthM widthEndM 28 k = axisDeg - ?h + (2 * ?h) * (real k / 28)"
    for k
    by (simp add: coneFan_bearing_def Let_def)
  have shape: "coneFan lkp axisDeg lengthM widthEndM 28 =
     [lkp] @ map (\<lambda>k. moveLL lkp (coneFan_bearing axisDeg lengthM widthEndM 28 k) lengthM)
               [0..<29] @ [lkp]"
    by (simp add: coneFan_eq)
  have len: "length (coneFan lkp axisDeg lengthM widthEndM 28) = 31"
    by (simp add: coneFan_eq)
  have step: "coneFan_bearing axisDeg lengthM widthEndM 28 (Suc k)
            - coneFan_bearing axisDeg lengthM widthEndM 28 k = (2 * ?h) / 28" for k
    by (simp add: b field_simps)
  have mono: "coneFan_bearing axisDeg lengthM widthEndM 28 j
                \<le> coneFan_bearing axisDeg lengthM widthEndM 28 k"
    if w: "0 \<le> widthEndM" and jk: "j \<le> k" for j k
  proof -
    have "0 \<le> ?h" using Math_atan2_nonneg [OF w, of lengthM] by simp
    moreover have "real j / 28 \<le> real k / 28" using jk by simp
    ultimately have "(2 * ?h) * (real j / 28) \<le> (2 * ?h) * (real k / 28)"
      by (intro mult_left_mono) simp_all
    then show ?thesis by (simp add: b)
  qed
  show ?thesis
    using shape len step mono by (simp add: b)
qed

theorem coneFan_polygon_witness:
  "(0::real) \<le> 50 \<and> (0::nat) \<le> 28
   \<and> coneFan_bearing 0 100 50 28 0 \<le> coneFan_bearing 0 100 50 28 28
   \<and> length (coneFan \<lparr> lat = 0, lon = 0 \<rparr> 0 100 50 28) = 31"
proof -
  note fan = coneFan_polygon [of "\<lparr> lat = 0, lon = 0 \<rparr>" 0 100 50]
  have w: "(0::real) \<le> 50" and jk: "(0::nat) \<le> 28" by simp_all
  from fan have len: "length (coneFan \<lparr> lat = 0, lon = 0 \<rparr> 0 100 50 28) = 31"
    by (elim conjE)
  from fan have "(0::real) \<le> 50 \<longrightarrow>
      (\<forall>j k. j \<le> k \<longrightarrow> coneFan_bearing 0 100 50 28 j \<le> coneFan_bearing 0 100 50 28 k)"
    by (elim conjE)
  with w jk have "coneFan_bearing 0 100 50 28 0 \<le> coneFan_bearing 0 100 50 28 28"
    by blast
  with w jk len show ?thesis by (intro conjI)
qed

text \<open>
  C3 with 28 samples fails: between the two copies of the LKP the polygon holds 29 points.
\<close>

theorem coneFan_samples_counterexample:
  "length (butlast (tl (coneFan \<lparr> lat = 0, lon = 0 \<rparr> 0 100 50 28))) = 29
   \<and> length (butlast (tl (coneFan \<lparr> lat = 0, lon = 0 \<rparr> 0 100 50 28))) \<noteq> 28"
  by (simp add: coneFan_eq)

section \<open>C4: the confidence score, band and reset recommendation\<close>

text \<open>
  C4. For every request the confidence score is an integer between 5 and 100; the band is
  \<open>confidenceBand\<close> of the score alone, \<open>High\<close> exactly when the score is at least 70,
  \<open>Moderate\<close> exactly when it is at least 40 and below 70, \<open>Low\<close> exactly when it is below 40;
  the reset recommendation is 60 minutes for \<open>High\<close>, 45 for \<open>Moderate\<close> and 30 for \<open>Low\<close>.
\<close>

theorem confidence_outputs:
  "confidence_score (computeScentEnvelope input) \<in> \<int>
   \<and> 5 \<le> confidence_score (computeScentEnvelope input)
   \<and> confidence_score (computeScentEnvelope input) \<le> 100
   \<and> confidence_band (computeScentEnvelope input)
       = confidenceBand (confidence_score (computeScentEnvelope input))
   \<and> (confidence_band (computeScentEnvelope input) = ''High''
        \<longleftrightarrow> 70 \<le> confidence_score (computeScentEnvelope input))
   \<and> (confidence_band (computeScentEnvelope input) = ''Moderate''
        \<longleftrightarrow> 40 \<le> confidence_score (computeScentEnvelope input)
            \<and> confidence_score (computeScentEnvelope input) < 70)
   \<and> (confidence_band (computeScentEnvelope input) = ''Low''
        \<longleftrightarrow> confidence_score (computeScentEnvelope input) < 40)
   \<and> (confidence_band (computeScentEnvelope input) = ''High''
        \<longrightarrow> reset_recommendation_minutes (computeScentEnvelope input) = 60)
   \<and> (confidence_band (computeScentEnvelope input) = ''Moderate''
        \<longrightarrow> reset_recommendation_minutes (computeScentEnvelope input) = 45)
   \<and> (confidence_band (computeScentEnvelope input) = ''Low''
        \<longrightarrow> reset_recommendation_minutes (computeScentEnvelope input) = 30)"
proof -
  let ?c = "confidence_score (computeScentEnvelope input)"
  have range: "?c \<in> \<int> \<and> 5 \<le> ?c \<and> ?c \<le> 100"
    by (simp only: result_score confidenceScore_range)
  have band: "confidence_band (computeScentEnvelope input) = confidenceBand ?c"
    by (rule result_band)
  have reset: "reset_recommendation_minutes (computeScentEnvelope input) = resetRecommendation ?c"
    by (rule result_reset)
  show ?thesis
    using range by (simp add: band reset confidenceBand_def resetRecommendation_def)
qed

theorem confidence_outputs_witness:
  "confidence_score (computeScentEnvelope request_origin) = 81
   \<and> confidence_band (computeScentEnvelope request_origin) = ''High''
   \<and> reset_recommendation_minutes (computeScentEnvelope request_origin) = 60
   \<and> confidence_score (computeScentEnvelope request_dry) = 58
   \<and> confidence_band (computeScentEnvelope request_dry) = ''Moderate''
   \<and> reset_recommendation_minutes (computeScentEnvelope request_dry) = 45
   \<and> confidence_score (computeScentEnvelope request_storm) = 33
   \<and> confidence_band (computeScentEnvelope request_storm) = ''Low''
   \<and> reset_recommendation_minutes (computeScentEnvelope request_storm) = 30"
  using confidence_outputs [of request_origin] confidence_outputs [of request_dry]
    confidence_outputs [of request_storm]
  by (simp add: origin_score dry_score storm_score confidenceBand_def)


section \<open>C5: closed polygons\<close>

text \<open>
  C5. For every request each of the three polygons (core, fringe, residual) has the LKP as
  its first vertex and as its last vertex (and has 31 vertices, so the two are distinct
  positions of the list).
\<close>

theorem polygons_closed:
  "hd (core (polygons (computeScentEnvelope input))) = \<lparr> lat = lkp_lat input, lon = lkp_lon input \<rparr>
   \<and> last (core (polygons (computeScentEnvelope input))) = \<lparr> lat = lkp_lat input, lon = lkp_lon input \<rparr>
   \<and> hd (fringe (polygons (computeScentEnvelope input))) = \<lparr> lat = lkp_lat input, lon = lkp_lon input \<rparr>
   \<and> last (fringe (polygons (computeScentEnvelope input))) = \<lparr> lat = lkp_lat input, lon = lkp_lon input \<rparr>
   \<and> hd (residual (polygons (computeScentEnvelope input))) = \<lparr> lat = lkp_lat input, lon = lkp_lon input \<rparr>
   \<and> last (residual (polygons (computeScentEnvelope input))) = \<lparr> lat = lkp_lat input, lon = lkp_lon input \<rparr>
   \<and> length (core (polygons (computeScentEnvelope input))) = 31
   \<and> length (fringe (polygons (computeScentEnvelope input))) = 31
   \<and> length (residual (polygons (computeScentEnvelope input))) = 31"
  by (simp add: result_polygons coneFan_eq)

theorem polygons_closed_witness:
  "hd (residual (polygons (computeScentEnvelope request_origin))) = \<lparr> lat = 0, lon = 0 \<rparr>
   \<and> last (residual (polygons (computeScentEnvelope request_origin))) = \<lparr> lat = 0, lon = 0 \<rparr>"
  using polygons_closed [of request_origin]
  by (simp add: origin_fields)

section \<open>C6: nested zones\<close>

text \<open>
  C6. For every request the base length \<open>L_m\<close> and the base width \<open>Width_end_m\<close> are not
  negative, the three polygons are built on one LKP and one axis from the lengths
  \<open>0.55 * L_m\<close>, \<open>0.85 * L_m\<close>, \<open>1.0 * L_m\<close> and the widths \<open>0.45 * Width_end_m\<close>,
  \<open>0.8 * Width_end_m\<close>, \<open>1.15 * Width_end_m\<close>, and so the length and the width of the core
  are at most those of the fringe, which are at most those of the residual zone.
\<close>

theorem zone_nesting:
  "0 \<le> envelope_L_m input \<and> 0 \<le> envelope_Width_end_m input
   \<and> 0.55 * envelope_L_m input \<le> 0.85 * envelope_L_m input
   \<and> 0.85 * envelope_L_m input \<le> 1.0 * envelope_L_m input
   \<and> 0.45 * envelope_Width_end_m input \<le> 0.8 * envelope_Width_end_m input
   \<and> 0.8 * envelope_Width_end_m input \<le> 1.15 * envelope_Width_end_m input
   \<and> polygons (computeScentEnvelope input) =
     \<lparr> core = coneFan \<lparr> lat = lkp_lat input, lon = lkp_lon input \<rparr> (downwind (wind_from_deg input))
               (0.55 * envelope_L_m input) (0.45 * envelope_Width_end_m input) 28,
       fringe = coneFan \<lparr> lat = lkp_lat input, lon = lkp_lon input \<rparr> (downwind (wind_from_deg input))
               (0.85 * envelope_L_m input) (0.8 * envelope_Width_end_m input) 28,
       residual = coneFan \<lparr> lat = lkp_lat input, lon = lkp_lon input \<rparr> (downwind (wind_from_deg input))
               (1.0 * envelope_L_m input) (1.15 * envelope_Width_end_m input) 28 \<rparr>"
  using L_m_pos [of input] Width_pos [of input]
  by (simp add: result_polygons)

theorem zone_nesting_witness:
  "envelope_L_m request_origin = 9.144 \<and> envelope_Width_end_m request_origin = 18.288
   \<and> (0.55 :: real) * 9.144 \<le> 0.85 * 9.144 \<and> (0.45 :: real) * 18.288 \<le> 0.8 * 18.288
   \<and> length (core (polygons (computeScentEnvelope request_origin))) = 31"
  using zone_nesting [of request_origin]
  by (simp add: origin_L_m origin_Width_end_m coneFan_eq)

section \<open>C7: the downwind bearing\<close>

text \<open>
  C7, as the source has it. For every bearing from -180 degrees upwards (so for every
  meteorological bearing between 0 and 360), \<open>downwindDeg\<close> and the \<open>downwind\<close> of the
  envelope module lie in \<open>[0, 360)\<close> and are the residue of \<open>fromDeg + 180\<close> modulo 360;
  the cone's field is that value.
\<close>

theorem downwind_normalised:
  "- 180 \<le> fromDeg \<Longrightarrow>
     0 \<le> downwindDeg fromDeg \<and> downwindDeg fromDeg < 360
     \<and> downwindDeg fromDeg = residue (fromDeg + 180) 360
     \<and> downwind fromDeg = downwindDeg fromDeg
     \<and> cone_downwindDeg (computeCone src lengthPx halfAngleDeg fromDeg) = downwindDeg fromDeg"
  using js_rem_360_nonneg [of "fromDeg + 180"]
  by (simp add: downwindDeg_def downwind_def computeCone_def Let_def)

theorem downwind_normalised_witness:
  "(- 180 :: real) \<le> 270 \<and> downwindDeg 270 = 90 \<and> downwind 270 = 90
   \<and> cone_downwindDeg (computeCone \<lparr> pt_x = 0, pt_y = 0 \<rparr> 100 14 270) = 90"
proof -
  have "downwindDeg 270 = 90" by (simp add: downwindDeg_def js_rem_450)
  then show ?thesis
    using downwind_normalised [of 270 "\<lparr> pt_x = 0, pt_y = 0 \<rparr>" 100 14] by simp
qed

text \<open>
  C7 for every real input fails: the remainder operator keeps the sign of the dividend, and a
  bearing of -200 degrees gives -20, which is below 0 and is not the residue 340.
\<close>

theorem downwind_negative_counterexample:
  "downwindDeg (- 200) = - 20 \<and> downwind (- 200) = - 20
   \<and> \<not> (0 \<le> downwindDeg (- 200)) \<and> downwindDeg (- 200) \<noteq> residue (- 200 + 180) 360"
  by (simp add: downwindDeg_def downwind_def js_rem_minus_20 residue_minus_20)

section \<open>C8: growth with the elapsed time\<close>

text \<open>
  C8. For two requests with the same wind speed, terrain and stability, if the elapsed
  minutes of the first are at most those of the second, then the total length \<open>L_m\<close> and
  the end width \<open>Width_end_m\<close> of the first are at most those of the second. The elapsed
  minutes of a request are never negative, and every integer \<open>n\<close> from 0 upwards is the
  elapsed time of a request (the one evaluated \<open>60000 * n\<close> milliseconds after its LKP time),
  so this covers all integer times \<open>0 \<le> t1 \<le> t2\<close>.
\<close>

theorem envelope_monotone:
  "(wind_speed_mph i1 = wind_speed_mph i2 \<and> terrain i1 = terrain i2
      \<and> stability i1 = stability i2
      \<and> minutes_since_lkp (computeScentEnvelope i1) \<le> minutes_since_lkp (computeScentEnvelope i2)
    \<longrightarrow> envelope_L_m i1 \<le> envelope_L_m i2
        \<and> envelope_Width_end_m i1 \<le> envelope_Width_end_m i2)
   \<and> 0 \<le> minutes_since_lkp (computeScentEnvelope i1)
   \<and> minutes_since_lkp
        (computeScentEnvelope (i1 \<lparr> now_time_ms := lkp_time_ms i1 + 60000 * real n \<rparr>)) = real n"
proof -
  have mono: "envelope_L_m i1 \<le> envelope_L_m i2
      \<and> envelope_Width_end_m i1 \<le> envelope_Width_end_m i2"
    if same: "wind_speed_mph i1 = wind_speed_mph i2" "terrain i1 = terrain i2"
      "stability i1 = stability i2"
      and le: "minutes_since_lkp (computeScentEnvelope i1)
                 \<le> minutes_since_lkp (computeScentEnvelope i2)"
  proof -
    have t: "envelope_tMin i1 \<le> envelope_tMin i2"
      using le by (simp only: result_minutes)
    have t0: "0 \<le> envelope_tMin i1" by (rule tMin_nonneg)
    have w: "envelope_W i1 = envelope_W i2"
      using same(1) by (simp add: envelope_W_def)
    have w0: "0 \<le> min (envelope_W i2) 18" by (simp add: envelope_W_def)
    have a: "0 \<le> terrainLenMult (terrain i2) * stabilityMult (stability i2) * 0.3048"
      using terrainLenMult_pos [of "terrain i2"] stabilityMult_pos [of "stability i2"] by simp
    have b: "0 \<le> mixMult (stability i2) (terrain i2) * 0.3048"
      using mixMult_pos [of "stability i2" "terrain i2"] by simp
    have "(30 + 6.0 * envelope_tMin i1
             + 120 * min (envelope_W i2) 18 * ln (1 + envelope_tMin i1 / 30))
            * (terrainLenMult (terrain i2) * stabilityMult (stability i2) * 0.3048)
          \<le> (30 + 6.0 * envelope_tMin i2
             + 120 * min (envelope_W i2) 18 * ln (1 + envelope_tMin i2 / 30))
            * (terrainLenMult (terrain i2) * stabilityMult (stability i2) * 0.3048)"
      by (rule mult_right_mono [OF length_ft_mono [OF t0 t w0] a])
    then have len: "envelope_L_m i1 \<le> envelope_L_m i2"
      by (simp add: envelope_L_m_def Let_def w same(2,3) mult.assoc)
    have "(20 + 3.5 * envelope_tMin i1 + 40 * sqrt (max 1 (envelope_tMin i1)))
            * (mixMult (stability i2) (terrain i2) * 0.3048)
          \<le> (20 + 3.5 * envelope_tMin i2 + 40 * sqrt (max 1 (envelope_tMin i2)))
            * (mixMult (stability i2) (terrain i2) * 0.3048)"
      by (rule mult_right_mono [OF width_ft_mono [OF t] b])
    then have wid: "envelope_Width_end_m i1 \<le> envelope_Width_end_m i2"
      by (simp add: envelope_Width_end_m_def Let_def same(2,3) mult.assoc)
    from len wid show ?thesis ..
  qed
  have nonneg: "0 \<le> minutes_since_lkp (computeScentEnvelope i1)"
    by (simp only: result_minutes tMin_nonneg)
  have attained: "minutes_since_lkp
        (computeScentEnvelope (i1 \<lparr> now_time_ms := lkp_time_ms i1 + 60000 * real n \<rparr>)) = real n"
    by (simp only: result_minutes tMin_attained)
  from mono nonneg attained show ?thesis by blast
qed

theorem envelope_monotone_witness:
  "wind_speed_mph request_origin = wind_speed_mph request_hour
   \<and> terrain request_origin = terrain request_hour
   \<and> stability request_origin = stability request_hour
   \<and> minutes_since_lkp (computeScentEnvelope request_origin) = 0
   \<and> minutes_since_lkp (computeScentEnvelope request_hour) = 60
   \<and> envelope_L_m request_origin \<le> envelope_L_m request_hour
   \<and> envelope_Width_end_m request_origin \<le> envelope_Width_end_m request_hour"
proof -
  have same: "wind_speed_mph request_origin = wind_speed_mph request_hour"
    "terrain request_origin = terrain request_hour"
    "stability request_origin = stability request_hour"
    by (simp_all add: request_hour_def)
  have t0: "minutes_since_lkp (computeScentEnvelope request_origin) = 0"
    by (simp add: result_minutes origin_tMin)
  have t60: "minutes_since_lkp (computeScentEnvelope request_hour) = 60"
    by (simp add: result_minutes hour_tMin)
  have le: "minutes_since_lkp (computeScentEnvelope request_origin)
              \<le> minutes_since_lkp (computeScentEnvelope request_hour)"
    by (simp add: t0 t60)
  have "envelope_L_m request_origin \<le> envelope_L_m request_hour
      \<and> envelope_Width_end_m request_origin \<le> envelope_Width_end_m request_hour"
    using envelope_monotone [of request_origin request_hour 0] same le by blast
  with same t0 t60 show ?thesis by simp
qed


section \<open>C9: rotation\<close>

text \<open>
  C9. For every origin, point and angle in degrees, the rotated point is as far from the
  origin as the point was.
\<close>

theorem rotatePoint_isometry:
  "euclid_dist origin (rotatePoint origin p deg) = euclid_dist origin p"
  by (simp only: euclid_dist_def rotatePoint_squares)

theorem rotatePoint_isometry_witness:
  "euclid_dist \<lparr> pt_x = 0, pt_y = 0 \<rparr>
     (rotatePoint \<lparr> pt_x = 0, pt_y = 0 \<rparr> \<lparr> pt_x = 3, pt_y = 4 \<rparr> 30) = 5"
proof -
  have "sqrt 25 = sqrt (5\<^sup>2)" by simp
  then have "sqrt 25 = 5" by simp
  then have "euclid_dist \<lparr> pt_x = 0, pt_y = 0 \<rparr> \<lparr> pt_x = 3, pt_y = 4 \<rparr> = 5"
    by (simp add: euclid_dist_def)
  then show ?thesis
    using rotatePoint_isometry [of "\<lparr> pt_x = 0, pt_y = 0 \<rparr>" "\<lparr> pt_x = 3, pt_y = 4 \<rparr>" 30]
    by simp
qed

section \<open>C10: the deployment notes\<close>

text \<open>
  C10. For every request the notes are: the low-wind note if the wind is at most 3 mph, then
  the high-wind note if it is at least 13 mph, then the heavy-precipitation note if the
  precipitation is heavy, then the closing note of the returned confidence band. So the list
  is not empty, its last element is the closing note of the band, and exactly one element
  of the list is one of the three closing notes.
\<close>

theorem deployment_notes_shape:
  "deployment_notes (computeScentEnvelope input) =
     (if max 0 (wind_speed_mph input) \<le> 3 then [note_low_wind] else [])
     @ (if 13 \<le> max 0 (wind_speed_mph input) then [note_high_wind] else [])
     @ (if precip input = ''heavy'' then [note_heavy_precip] else [])
     @ [if confidence_band (computeScentEnvelope input) = ''Low'' then note_low_confidence
        else if confidence_band (computeScentEnvelope input) = ''Moderate''
        then note_moderate_confidence
        else note_high_confidence]
   \<and> deployment_notes (computeScentEnvelope input) \<noteq> []
   \<and> last (deployment_notes (computeScentEnvelope input)) =
       (if confidence_band (computeScentEnvelope input) = ''Low'' then note_low_confidence
        else if confidence_band (computeScentEnvelope input) = ''Moderate''
        then note_moderate_confidence
        else note_high_confidence)
   \<and> length (filter (\<lambda>n. n = note_low_confidence \<or> n = note_moderate_confidence
                          \<or> n = note_high_confidence)
               (deployment_notes (computeScentEnvelope input))) = 1
   \<and> confidence_band (computeScentEnvelope input) \<in> {''Low'', ''Moderate'', ''High''}"
proof -
  let ?c = "confidence_score (computeScentEnvelope input)"
  let ?closing = "if confidence_band (computeScentEnvelope input) = ''Low'' then note_low_confidence
        else if confidence_band (computeScentEnvelope input) = ''Moderate''
        then note_moderate_confidence
        else note_high_confidence"
  have closing: "(if ?c < 40 then note_low_confidence
        else if ?c < 70 then note_moderate_confidence else note_high_confidence) = ?closing"
    by (simp add: result_band confidenceBand_def)
  have band: "confidence_band (computeScentEnvelope input) \<in> {''Low'', ''Moderate'', ''High''}"
    by (simp add: result_band confidenceBand_def)
  have shape: "deployment_notes (computeScentEnvelope input) =
     (if max 0 (wind_speed_mph input) \<le> 3 then [note_low_wind] else [])
     @ (if 13 \<le> max 0 (wind_speed_mph input) then [note_high_wind] else [])
     @ (if precip input = ''heavy'' then [note_heavy_precip] else [])
     @ [?closing]"
    by (simp only: result_notes closing envelope_W_def)
  have d: "note_low_wind \<noteq> note_low_confidence" "note_low_wind \<noteq> note_moderate_confidence"
    "note_low_wind \<noteq> note_high_confidence"
    "note_high_wind \<noteq> note_low_confidence" "note_high_wind \<noteq> note_moderate_confidence"
    "note_high_wind \<noteq> note_high_confidence"
    "note_heavy_precip \<noteq> note_low_confidence" "note_heavy_precip \<noteq> note_moderate_confidence"
    "note_heavy_precip \<noteq> note_high_confidence"
    using notes_distinct by auto
  have nonempty: "deployment_notes (computeScentEnvelope input) \<noteq> []"
    by (subst shape) simp
  have lst: "last (deployment_notes (computeScentEnvelope input)) = ?closing"
    by (subst shape) simp
  have cnt: "length (filter (\<lambda>n. n = note_low_confidence \<or> n = note_moderate_confidence
                          \<or> n = note_high_confidence)
               (deployment_notes (computeScentEnvelope input))) = 1"
    by (subst shape) (simp add: d)
  from shape nonempty lst cnt band show ?thesis by (intro conjI)
qed

theorem deployment_notes_shape_witness:
  "deployment_notes (computeScentEnvelope request_origin) = [note_low_wind, note_high_confidence]
   \<and> confidence_band (computeScentEnvelope request_origin) = ''High''
   \<and> deployment_notes (computeScentEnvelope request_storm)
       = [note_high_wind, note_heavy_precip, note_low_confidence]
   \<and> confidence_band (computeScentEnvelope request_storm) = ''Low''"
proof -
  have band: "confidence_band (computeScentEnvelope request_origin) = ''High''"
    "confidence_band (computeScentEnvelope request_storm) = ''Low''"
    by (simp_all add: result_band origin_score storm_score confidenceBand_def)
  show ?thesis
    using deployment_notes_shape [of request_origin] deployment_notes_shape [of request_storm]
    by (simp add: band origin_fields storm_fields)
qed

end
